theory Spec2Isabelle
  imports Complex_Main "HOL-Library.Word"
begin

section \<open>Tile stitching: a shallow embedding of \<^verbatim>\<open>faim_hcs/stitching/stitching_utils.py\<close>\<close>

text \<open>
  The module assembles one block of a mosaic from positioned tiles:
  \<^verbatim>\<open>shift_to_origin\<close> normalises the tile positions, \<^verbatim>\<open>translate_tiles_2d\<close> resamples
  every tile into the block's frame, \<^verbatim>\<open>fuse_linear\<close>, \<^verbatim>\<open>fuse_mean\<close> and \<^verbatim>\<open>fuse_sum\<close>
  reduce the stack of resampled tiles to one image, and \<^verbatim>\<open>assemble_chunk\<close> puts the
  three together.

  Conventions of the embedding.
  \<^item> A numpy array is a record of its shape and of the element at every multi-index.
    Only the elements at indices inside the shape are meaningful.
  \<^item> Tile samples are 16-bit unsigned integers (numpy \<^verbatim>\<open>uint16\<close>); the \<^verbatim>\<open>dtype\<close>
    argument of the source is this type, so a cast to \<^verbatim>\<open>dtype\<close> is a cast to \<open>sample\<close>.
  \<^item> A float is a real number or one of NaN, +Inf, -Inf. Finite arithmetic is exact
    real arithmetic: rounding is not modelled. The operands the theorems below reach
    (samples below \<open>2 ^ 16\<close>, the weights 0, 1 and 1/2, quotients \<open>d / d\<close>) are computed
    without rounding by IEEE arithmetic as well.
  \<^item> Python integers are \<open>int\<close>; numpy's 64-bit integers are \<open>int\<close> with the wrap-around
    written out.
\<close>

subsection \<open>Arrays, floats and errors\<close>

record 'a ndarray =
  shape :: "nat list"
  item :: "nat list \<Rightarrow> 'a"

type_synonym sample = "16 word"

datatype fl = Fin real | PInf | NInf | NaN

datatype error = ValueError | KeyError | IndexError

subsection \<open>Tiles\<close>

text \<open>
  The classes \<^verbatim>\<open>Tile\<close> and \<^verbatim>\<open>TilePosition\<close> live in \<^verbatim>\<open>faim_hcs/stitching/Tile.py\<close>,
  which is not among the sources. Their fields and the three accessors below are
  modelled from the specification's data model.
\<close>

text \<open>Modelled from the spec: \<^verbatim>\<open>TilePosition\<close>, five integer coordinates
  (time, channel, z, y, x).\<close>

record TilePosition =
  pos_time :: int
  pos_channel :: int
  pos_z :: int
  pos_y :: int
  pos_x :: int

text \<open>Modelled from the spec: \<^verbatim>\<open>Tile\<close>, a position, a shape (height, width) and the
  pixel array that \<^verbatim>\<open>load_data()\<close> returns.\<close>

record Tile =
  position :: TilePosition
  tile_shape :: "nat \<times> nat"
  data :: "sample ndarray"

text \<open>Modelled from the spec: \<^verbatim>\<open>Tile.get_position()\<close>, the five coordinates in the order
  (time, channel, z, y, x).\<close>

definition get_position :: "Tile \<Rightarrow> int list" where
  "get_position tile =
     [pos_time (position tile), pos_channel (position tile), pos_z (position tile),
      pos_y (position tile), pos_x (position tile)]"

text \<open>Modelled from the spec: \<^verbatim>\<open>Tile.get_yx_position()\<close>, the pair (y, x).\<close>

definition get_yx_position :: "Tile \<Rightarrow> int \<times> int" where
  "get_yx_position tile = (pos_y (position tile), pos_x (position tile))"

text \<open>Modelled from the spec: \<^verbatim>\<open>Tile.load_data()\<close>, the tile's 2-D pixel array; loading has
  no side effect.\<close>

definition load_data :: "Tile \<Rightarrow> sample ndarray" where
  "load_data tile = data tile"

subsection \<open>Origin normalisation\<close>

text \<open>
  \<^verbatim>\<open>
  def shift_to_origin(tiles: list[Tile]) -> list[Tile]:
      min_tile_origin = np.min([np.array(tile.get_position()) for tile in tiles], axis=0)
      shifted_tiles = copy(tiles)
      for tile in shifted_tiles:
          shifted_pos = np.array(tile.get_position()) - min_tile_origin
          tile.position = TilePosition(
              time=shifted_pos[0], channel=shifted_pos[1], z=shifted_pos[2],
              y=shifted_pos[3], x=shifted_pos[4],
          )
      return shifted_tiles
  \<close>
  A Python list holds references to objects, and \<^verbatim>\<open>copy\<close> is the shallow copy: it
  builds a new list of the same references. The assignment \<^verbatim>\<open>tile.position = ...\<close>
  writes to the object the reference denotes. The store is therefore explicit: a
  \<open>heap\<close> maps every object identity to the \<open>Tile\<close> value it holds, a list of tiles is
  a list of identities, and the function returns the store after the loop together
  with the returned list. Every reference of a Python program denotes a live object,
  so the heap is a total map.
\<close>

type_synonym ref = nat
type_synonym heap = "ref \<Rightarrow> Tile"

text \<open>\<^verbatim>\<open>np.min(rows, axis=0)\<close> of a list of equally long rows: the minimum of every
  column. An empty list has no minimum: numpy raises \<^verbatim>\<open>ValueError\<close>.\<close>

definition np_min_axis0 :: "int list list \<Rightarrow> error + int list" where
  "np_min_axis0 rows =
     (case rows of
        [] \<Rightarrow> Inl ValueError
      | r # rs \<Rightarrow> Inr (map (\<lambda>k. min_list (map (\<lambda>row. row ! k) rows)) [0..<length r]))"

text \<open>
  \<^verbatim>\<open>np.array\<close> of a tuple of Python integers is an array of 64-bit signed integers, and
  the difference of two such arrays is computed in 64 bits: a result outside the range
  wraps around. \<open>int64\<close> is that wrap-around, \<open>in_int64\<close> the range. (Coordinates that do
  not fit 64 bits make \<^verbatim>\<open>np.array\<close> choose another element type; they are outside the
  model.)
\<close>

definition int64 :: "int \<Rightarrow> int" where
  "int64 v = (v + 2 ^ 63) mod 2 ^ 64 - 2 ^ 63"

definition in_int64 :: "int \<Rightarrow> bool" where
  "in_int64 v = (- (2 ^ 63) \<le> v \<and> v < 2 ^ 63)"

text \<open>Elementwise difference of two integer arrays of one shape.\<close>

definition np_subtract :: "int list \<Rightarrow> int list \<Rightarrow> int list" where
  "np_subtract a b = map2 (\<lambda>u v. int64 (u - v)) a b"

text \<open>The loop body: the new position of one tile object, written into the store.\<close>

definition set_shifted_position :: "int list \<Rightarrow> heap \<Rightarrow> ref \<Rightarrow> heap" where
  "set_shifted_position min_tile_origin h tile =
     (let shifted_pos = np_subtract (get_position (h tile)) min_tile_origin
      in h(tile := (h tile)\<lparr>position :=
           \<lparr>pos_time = shifted_pos ! 0, pos_channel = shifted_pos ! 1,
            pos_z = shifted_pos ! 2, pos_y = shifted_pos ! 3, pos_x = shifted_pos ! 4\<rparr>\<rparr>))"

fun shift_loop :: "int list \<Rightarrow> heap \<Rightarrow> ref list \<Rightarrow> heap" where
  "shift_loop min_tile_origin h [] = h"
| "shift_loop min_tile_origin h (tile # rest) =
     shift_loop min_tile_origin (set_shifted_position min_tile_origin h tile) rest"

definition shift_to_origin :: "heap \<Rightarrow> ref list \<Rightarrow> error + (heap \<times> ref list)" where
  "shift_to_origin h tiles =
     (case np_min_axis0 (map (\<lambda>tile. get_position (h tile)) tiles) of
        Inl e \<Rightarrow> Inl e
      | Inr min_tile_origin \<Rightarrow>
          (let shifted_tiles = tiles
           in Inr (shift_loop min_tile_origin h shifted_tiles, shifted_tiles)))"

text \<open>Observers of a store: the positions of a list of tiles, and their column minimum.\<close>

definition positions :: "heap \<Rightarrow> ref list \<Rightarrow> int list list" where
  "positions h tiles = map (\<lambda>tile. get_position (h tile)) tiles"

definition min_position_after :: "heap \<Rightarrow> ref list \<Rightarrow> error + int list" where
  "min_position_after h tiles =
     (case shift_to_origin h tiles of
        Inl e \<Rightarrow> Inl e
      | Inr (h', shifted_tiles) \<Rightarrow> np_min_axis0 (positions h' shifted_tiles))"

text \<open>A tile at (0, 0, 0, y, x) of height \<open>h\<close> and width \<open>w\<close> whose samples all equal \<open>v\<close>.\<close>

definition const_tile :: "int \<Rightarrow> int \<Rightarrow> nat \<Rightarrow> nat \<Rightarrow> sample \<Rightarrow> Tile" where
  "const_tile ty tx h w v =
     \<lparr>position = \<lparr>pos_time = 0, pos_channel = 0, pos_z = 0, pos_y = ty, pos_x = tx\<rparr>,
      tile_shape = (h, w),
      data = \<lparr>shape = [h, w], item = (\<lambda>idx. v)\<rparr>\<rparr>"

subsection \<open>numpy, scipy and scikit-image primitives\<close>

text \<open>The library functions the module calls, each by its documented behaviour on the
  arguments the module passes.\<close>

text \<open>An elementwise operation on one array, and on two arrays of one shape.\<close>

definition map_array :: "('a \<Rightarrow> 'b) \<Rightarrow> 'a ndarray \<Rightarrow> 'b ndarray" where
  "map_array f a = \<lparr>shape = shape a, item = (\<lambda>idx. f (item a idx))\<rparr>"

definition map_array2 :: "('a \<Rightarrow> 'b \<Rightarrow> 'c) \<Rightarrow> 'a ndarray \<Rightarrow> 'b ndarray \<Rightarrow> 'c ndarray" where
  "map_array2 f a b = \<lparr>shape = shape a, item = (\<lambda>idx. f (item a idx) (item b idx))\<rparr>"

text \<open>\<^verbatim>\<open>a[i]\<close>: the \<open>i\<close>-th slice along the first axis.\<close>

definition subarray :: "'a ndarray \<Rightarrow> nat \<Rightarrow> 'a ndarray" where
  "subarray a i = \<lparr>shape = tl (shape a), item = (\<lambda>idx. item a (i # idx))\<rparr>"

text \<open>\<^verbatim>\<open>np.array(arrays)\<close> of a Python list of arrays of one shape: a new first axis. The
  empty list gives the array of shape \<^verbatim>\<open>(0,)\<close>.\<close>

definition np_array :: "'a ndarray list \<Rightarrow> 'a ndarray" where
  "np_array arrays =
     \<lparr>shape = (case arrays of [] \<Rightarrow> [0] | a # _ \<Rightarrow> length arrays # shape a),
      item = (\<lambda>idx. item (arrays ! hd idx) (tl idx))\<rparr>"

text \<open>\<^verbatim>\<open>np.sum(a, axis=0)\<close> and \<^verbatim>\<open>a.sum(axis=0)\<close>, in the element type of \<open>a\<close>. (numpy
  refuses a 0-dimensional array; the module never sums one.)\<close>

definition np_sum_axis0 :: "('a::comm_monoid_add) ndarray \<Rightarrow> 'a ndarray" where
  "np_sum_axis0 a =
     \<lparr>shape = tl (shape a),
      item = (\<lambda>idx. sum_list (map (\<lambda>i. item a (i # idx)) [0..<hd (shape a)]))\<rparr>"

text \<open>\<^verbatim>\<open>np.zeros(shape, dtype)\<close> and \<^verbatim>\<open>np.ones_like(a)\<close>.\<close>

definition np_zeros :: "nat list \<Rightarrow> sample ndarray" where
  "np_zeros shp = \<lparr>shape = shp, item = (\<lambda>idx. 0)\<rparr>"

definition np_ones_like :: "sample ndarray \<Rightarrow> sample ndarray" where
  "np_ones_like a = \<lparr>shape = shape a, item = (\<lambda>idx. 1)\<rparr>"

text \<open>Float division, with IEEE's results for a zero divisor.\<close>

definition fl_divide :: "real \<Rightarrow> real \<Rightarrow> fl" where
  "fl_divide a b =
     (if b \<noteq> 0 then Fin (a / b)
      else if a = 0 then NaN else if 0 < a then PInf else NInf)"

text \<open>
  \<^verbatim>\<open>np.true_divide(x1, x2, where=cond)\<close> with no \<^verbatim>\<open>out\<close> argument, for \<open>x1\<close> of shape
  \<open>(N, H, W)\<close> and \<open>x2\<close>, \<open>cond\<close> of shape \<open>(H, W)\<close>, broadcast along the first axis. numpy's
  documentation of \<^verbatim>\<open>where\<close>: ``if an uninitialized out array is created via the default
  out=None, locations within it where the condition is False will remain
  uninitialized.'' The result array is fresh memory: where the condition is False it
  holds whatever bit pattern was there before, which \<open>junk\<close> stands for. Every theorem
  below holds for every \<open>junk\<close>.
\<close>

definition true_divide_where ::
    "(nat list \<Rightarrow> fl) \<Rightarrow> real ndarray \<Rightarrow> real ndarray \<Rightarrow> bool ndarray \<Rightarrow> fl ndarray" where
  "true_divide_where junk x1 x2 cond =
     \<lparr>shape = shape x1,
      item = (\<lambda>idx. if item cond (tl idx)
                    then fl_divide (item x1 idx) (item x2 (tl idx))
                    else junk idx)\<rparr>"

text \<open>\<^verbatim>\<open>np.nan_to_num(x, nan=, posinf=, neginf=)\<close> on a float array: the result is finite.\<close>

fun nan_to_num :: "real \<Rightarrow> real \<Rightarrow> real \<Rightarrow> fl \<Rightarrow> real" where
  "nan_to_num nan posinf neginf (Fin v) = v"
| "nan_to_num nan posinf neginf NaN = nan"
| "nan_to_num nan posinf neginf PInf = posinf"
| "nan_to_num nan posinf neginf NInf = neginf"

text \<open>\<^verbatim>\<open>np.nan_to_num\<close> on an array that is not of a float type returns it as it is:
  ``If x is not inexact, then no replacements are made.''\<close>

definition nan_to_num_bool :: "bool \<Rightarrow> bool \<Rightarrow> bool \<Rightarrow> bool ndarray \<Rightarrow> bool ndarray" where
  "nan_to_num_bool nan posinf neginf x = x"

text \<open>\<^verbatim>\<open>np.clip(x, lo, hi)\<close>, one element.\<close>

definition clip :: "real \<Rightarrow> real \<Rightarrow> real \<Rightarrow> real" where
  "clip lo hi v = min (max v lo) hi"

text \<open>\<^verbatim>\<open>.astype(dtype)\<close> of a float: the fraction is cut off. A NaN, an infinity or a
  value outside the range has no defined result in numpy (the C cast is undefined);
  the model wraps a finite value and gives 0 for the others, and no theorem below casts
  such a value.\<close>

fun astype_sample :: "fl \<Rightarrow> sample" where
  "astype_sample (Fin v) = word_of_int (if 0 \<le> v then \<lfloor>v\<rfloor> else \<lceil>v\<rceil>)"
| "astype_sample NaN = 0"
| "astype_sample PInf = 0"
| "astype_sample NInf = 0"

text \<open>\<^verbatim>\<open>.astype(bool)\<close> of a float: every value but zero is True, NaN and the infinities
  included.\<close>

definition astype_bool :: "fl \<Rightarrow> bool" where
  "astype_bool v = (v \<noteq> Fin 0)"

text \<open>The float value of a sample and of a boolean.\<close>

definition sample_to_float :: "sample \<Rightarrow> real" where
  "sample_to_float v = real (unat v)"

definition bool_to_float :: "bool \<Rightarrow> real" where
  "bool_to_float b = (if b then 1 else 0)"

text \<open>
  \<^verbatim>\<open>scipy.ndimage.distance_transform_edt(input)\<close> of a 2-D array: at a non-zero pixel the
  Euclidean distance to the nearest zero pixel, at a zero pixel 0. For an input with no
  zero pixel at all scipy's feature transform finds no background and leaves its
  initial feature index \<open>(-1, 0)\<close>, so the result at \<open>(r, c)\<close> is the distance to that
  index.
\<close>

definition background :: "bool ndarray \<Rightarrow> (nat \<times> nat) list" where
  "background m =
     concat (map (\<lambda>r. concat (map (\<lambda>c. if item m [r, c] then [] else [(r, c)])
                                  [0..<shape m ! 1]))
                 [0..<shape m ! 0])"

definition sq_dist :: "nat \<times> nat \<Rightarrow> nat \<times> nat \<Rightarrow> int" where
  "sq_dist p q = (int (fst p) - int (fst q))\<^sup>2 + (int (snd p) - int (snd q))\<^sup>2"

definition distance_transform_edt :: "bool ndarray \<Rightarrow> real ndarray" where
  "distance_transform_edt m =
     \<lparr>shape = shape m,
      item = (\<lambda>idx.
        (let r = idx ! 0; c = idx ! 1 in
         if background m = [] then sqrt (real ((r + 1)\<^sup>2 + c\<^sup>2))
         else if item m [r, c]
              then sqrt (real_of_int (min_list (map (sq_dist (r, c)) (background m))))
              else 0))\<rparr>"

text \<open>
  \<^verbatim>\<open>np.stack([a, b], axis=-1)\<close> of two arrays of one shape, and \<^verbatim>\<open>w[..., k]\<close>.
\<close>

definition np_stack_last :: "'a ndarray \<Rightarrow> 'a ndarray \<Rightarrow> 'a ndarray" where
  "np_stack_last a b =
     \<lparr>shape = shape a @ [2],
      item = (\<lambda>idx. if last idx = 0 then item a (butlast idx) else item b (butlast idx))\<rparr>"

definition channel :: "nat \<Rightarrow> 'a ndarray \<Rightarrow> 'a ndarray" where
  "channel k w = \<lparr>shape = butlast (shape w), item = (\<lambda>idx. item w (idx @ [k]))\<rparr>"

text \<open>
  \<^verbatim>\<open>skimage.transform.warp(image, EuclideanTransform(translation=(tx, ty)), cval=0,
  output_shape=(H, W), order=0, preserve_range=True)\<close> of an image of shape \<open>(h, w, n)\<close>.
  The transform is the inverse map: the output pixel at row \<open>r\<close> and column \<open>c\<close> takes
  the input pixel at row \<open>r + ty\<close> and column \<open>c + tx\<close>, every channel alike, and the
  constant \<open>cval\<close> where that lies outside the input. The offsets are integers, so order
  0 (nearest neighbour) reads exactly that pixel. The result is a float array of shape
  \<open>(H, W, n)\<close>.
\<close>

definition warp :: "real ndarray \<Rightarrow> int \<times> int \<Rightarrow> real \<Rightarrow> nat list \<Rightarrow> fl ndarray" where
  "warp img translation cval output_shape =
     \<lparr>shape = output_shape @ [shape img ! 2],
      item = (\<lambda>idx.
        (let row = int (idx ! 0) + snd translation;
             col = int (idx ! 1) + fst translation
         in if 0 \<le> row \<and> row < int (shape img ! 0) \<and> 0 \<le> col \<and> col < int (shape img ! 1)
            then Fin (item img [nat row, nat col, idx ! 2])
            else Fin cval))\<rparr>"

subsection \<open>Fusion\<close>

text \<open>
  \<^verbatim>\<open>
  def fuse_linear(warped_tiles, warped_masks):
      dtype = warped_tiles.dtype
      if warped_tiles.shape[0] > 1:
          weights = np.zeros_like(warped_masks, dtype=np.float32)
          for i, mask in enumerate(warped_masks):
              weights[i] = distance_transform_edt(warped_masks[i].astype(np.float32))
          denominator = weights.sum(axis=0)
          weights = np.true_divide(weights, denominator, where=denominator > 0)
          weights = np.nan_to_num(weights, nan=0, posinf=1, neginf=0)
          weights = np.clip(weights, 0, 1)
      else:
          weights = warped_masks
      return np.sum(warped_tiles * weights, axis=0).astype(dtype)
  \<close>
  In the first branch the weights are floats and so is the product; in the second the
  weights are the boolean masks, the product \<^verbatim>\<open>uint16 * bool\<close> is \<^verbatim>\<open>uint16\<close>, and
  \<^verbatim>\<open>np.sum\<close> adds 16-bit unsigned integers in 64-bit unsigned integers.
\<close>

definition edt_weights :: "bool ndarray \<Rightarrow> real ndarray" where
  "edt_weights warped_masks =
     \<lparr>shape = shape warped_masks,
      item = (\<lambda>idx. item (distance_transform_edt (subarray warped_masks (hd idx))) (tl idx))\<rparr>"

definition normalize_weights :: "(nat list \<Rightarrow> fl) \<Rightarrow> real ndarray \<Rightarrow> real ndarray" where
  "normalize_weights junk weights =
     (let denominator = np_sum_axis0 weights;
          weights = true_divide_where junk weights denominator
                      (map_array (\<lambda>d. 0 < d) denominator);
          weights = map_array (nan_to_num 0 1 0) weights
      in map_array (clip 0 1) weights)"

definition linear_weights :: "(nat list \<Rightarrow> fl) \<Rightarrow> bool ndarray \<Rightarrow> real ndarray" where
  "linear_weights junk warped_masks = normalize_weights junk (edt_weights warped_masks)"

text \<open>
  \<^verbatim>\<open>np.sum(warped_tiles * weights, axis=0).astype(dtype)\<close> for float weights. The products
  and their sum are exact reals here, where numpy rounds every product and every partial
  sum to the float type before the cast cuts off the fraction. The two agree whenever
  the products and partial sums are representable, as they are for a 16-bit sample
  times a weight of 0, 1 or 1/2; they can differ otherwise (three samples of 7 with
  weight 1/3 each sum to 7 here and to 6.999... in floats, which the cast makes 6). The
  theorems below reach representable operands only.
\<close>

definition weighted_sum :: "sample ndarray \<Rightarrow> real ndarray \<Rightarrow> sample ndarray" where
  "weighted_sum warped_tiles weights =
     map_array (\<lambda>v. astype_sample (Fin v))
       (np_sum_axis0 (map_array2 (\<lambda>t w. sample_to_float t * w) warped_tiles weights))"

definition masked_sum :: "sample ndarray \<Rightarrow> bool ndarray \<Rightarrow> sample ndarray" where
  "masked_sum warped_tiles warped_masks =
     map_array (ucast :: 64 word \<Rightarrow> sample)
       (np_sum_axis0
          (map_array (ucast :: sample \<Rightarrow> 64 word)
             (map_array2 (\<lambda>t b. t * of_bool b) warped_tiles warped_masks)))"

definition fuse_linear :: "(nat list \<Rightarrow> fl) \<Rightarrow> sample ndarray \<Rightarrow> bool ndarray \<Rightarrow> sample ndarray" where
  "fuse_linear junk warped_tiles warped_masks =
     (if 1 < hd (shape warped_tiles)
      then weighted_sum warped_tiles (linear_weights junk warped_masks)
      else masked_sum warped_tiles warped_masks)"

text \<open>
  \<^verbatim>\<open>
  def fuse_mean(warped_tiles, warped_masks):
      denominator = warped_masks.sum(axis=0)
      weights = np.true_divide(warped_masks, denominator, where=denominator > 0)
      weights = np.clip(np.nan_to_num(weights, nan=0, posinf=1, neginf=0), 0, 1)
      fused_image = np.sum(warped_tiles * weights, axis=0)
      return fused_image.astype(warped_tiles.dtype)
  \<close>
  The sum of a boolean array counts its True entries.
\<close>

definition mean_weights :: "(nat list \<Rightarrow> fl) \<Rightarrow> bool ndarray \<Rightarrow> real ndarray" where
  "mean_weights junk warped_masks =
     (let denominator = np_sum_axis0 (map_array (\<lambda>b. of_bool b :: int) warped_masks);
          weights = true_divide_where junk (map_array bool_to_float warped_masks)
                      (map_array real_of_int denominator)
                      (map_array (\<lambda>d. 0 < d) denominator)
      in map_array (clip 0 1) (map_array (nan_to_num 0 1 0) weights))"

definition fuse_mean :: "(nat list \<Rightarrow> fl) \<Rightarrow> sample ndarray \<Rightarrow> bool ndarray \<Rightarrow> sample ndarray" where
  "fuse_mean junk warped_tiles warped_masks =
     weighted_sum warped_tiles (mean_weights junk warped_masks)"

text \<open>
  \<^verbatim>\<open>
  def fuse_sum(warped_tiles, warped_masks):
      fused_image = np.sum(warped_tiles, axis=0)
      return fused_image.astype(warped_tiles.dtype)
  \<close>
  \<^verbatim>\<open>np.sum\<close> adds 16-bit unsigned integers in 64-bit unsigned integers; the cast back
  keeps the low 16 bits.
\<close>

definition fuse_sum :: "sample ndarray \<Rightarrow> bool ndarray \<Rightarrow> sample ndarray" where
  "fuse_sum warped_tiles warped_masks =
     (let fused_image = np_sum_axis0 (map_array (ucast :: sample \<Rightarrow> 64 word) warped_tiles)
      in map_array (ucast :: 64 word \<Rightarrow> sample) fused_image)"

subsection \<open>The warp engine\<close>

text \<open>
  \<^verbatim>\<open>
  def translate_tiles_2d(block_info, yx_chunk_shape, dtype, tiles):
      array_location = block_info[None]["array-location"]
      chunk_yx_origin = np.array([array_location[3][0], array_location[4][0]])
      warped_tiles = []
      warped_masks = []
      for tile in tiles:
          tile_origin = np.array(tile.get_yx_position())
          transform = EuclideanTransform(
              translation=(chunk_yx_origin - tile_origin)[::-1])
          tile_data = tile.load_data()
          mask = np.ones_like(tile_data)
          warped = warp(np.stack([tile_data, mask], axis=-1), transform, cval=0,
                        output_shape=yx_chunk_shape, order=0, preserve_range=True)
          warped_tiles.append(warped[..., 0].astype(dtype))
          warped_masks.append(warped[..., 1].astype(bool))
      warped_masks = np.nan_to_num(
          np.array(warped_masks), nan=False, posinf=True, neginf=False)
      return np.array(warped_tiles), warped_masks
  \<close>
  \<open>block_info\<close> is the entry \<^verbatim>\<open>block_info[None]\<close> of the scheduler's dictionary, with the
  three keys the module reads. The function only reads its tiles, so it takes their
  values.
\<close>

record block_info =
  array_location :: "(int \<times> int) list"
  chunk_location :: "nat list"
  chunk_shape :: "nat list"

definition warp_tile :: "int \<times> int \<Rightarrow> nat list \<Rightarrow> Tile \<Rightarrow> fl ndarray" where
  "warp_tile chunk_yx_origin yx_chunk_shape tile =
     (let tile_origin = get_yx_position tile;
          translation = (snd chunk_yx_origin - snd tile_origin,
                         fst chunk_yx_origin - fst tile_origin);
          tile_data = load_data tile;
          mask = np_ones_like tile_data
      in warp (map_array sample_to_float (np_stack_last tile_data mask))
           translation 0 yx_chunk_shape)"

text \<open>The two \<^verbatim>\<open>append\<close> lines, for one value of each channel.\<close>

definition warped_tile_entry :: "fl \<Rightarrow> sample" where
  "warped_tile_entry v = astype_sample v"

definition warped_mask_entry :: "fl \<Rightarrow> bool" where
  "warped_mask_entry v = astype_bool v"

definition translate_tiles_2d ::
    "block_info \<Rightarrow> nat list \<Rightarrow> Tile list \<Rightarrow> error + (sample ndarray \<times> bool ndarray)" where
  "translate_tiles_2d bi yx_chunk_shape tiles =
     (if length (array_location bi) < 5 then Inl IndexError
      else
        (let chunk_yx_origin = (fst (array_location bi ! 3), fst (array_location bi ! 4));
             warped = map (warp_tile chunk_yx_origin yx_chunk_shape) tiles;
             warped_tiles = map (\<lambda>w. map_array warped_tile_entry (channel 0 w)) warped;
             warped_masks = map (\<lambda>w. map_array warped_mask_entry (channel 1 w)) warped;
             warped_masks = nan_to_num_bool False True False (np_array warped_masks)
         in Inr (np_array warped_tiles, warped_masks)))"


subsection \<open>Block assembly\<close>

text \<open>
  \<^verbatim>\<open>
  def assemble_chunk(block_info=None, tile_map=None, warp_func=None, fuse_func=None,
                     dtype=None):
      chunk_location = block_info[None]["chunk-location"]
      chunk_shape = block_info[None]["chunk-shape"]
      tiles = tile_map[chunk_location]
      if len(tiles) > 0:
          warped_tiles, warped_masks = warp_func(
              block_info, chunk_shape[-2:], dtype, tiles)
          stitched_img = fuse_func(warped_tiles, warped_masks).astype(dtype=dtype)
          stitched_img = stitched_img[np.newaxis, np.newaxis, np.newaxis, ...]
      else:
          stitched_img = np.zeros(chunk_shape, dtype=dtype)
      return stitched_img
  \<close>
  The result is paired with the log of the calls made to the two function arguments,
  in order. A missing key of the tile map raises \<^verbatim>\<open>KeyError\<close>; an error of the warp
  function propagates. The cast of a \<open>sample\<close> array to \<open>sample\<close> changes nothing.
\<close>

datatype call = WarpCall | FuseCall

text \<open>\<^verbatim>\<open>t[-2:]\<close> of a tuple, and \<^verbatim>\<open>a[np.newaxis, np.newaxis, np.newaxis, ...]\<close>.\<close>

definition last_two :: "nat list \<Rightarrow> nat list" where
  "last_two t = drop (length t - 2) t"

definition newaxis3 :: "'a ndarray \<Rightarrow> 'a ndarray" where
  "newaxis3 a = \<lparr>shape = 1 # 1 # 1 # shape a, item = (\<lambda>idx. item a (drop 3 idx))\<rparr>"

definition assemble_chunk ::
    "block_info \<Rightarrow> (nat list \<rightharpoonup> Tile list)
       \<Rightarrow> (block_info \<Rightarrow> nat list \<Rightarrow> Tile list \<Rightarrow> error + (sample ndarray \<times> bool ndarray))
       \<Rightarrow> (sample ndarray \<Rightarrow> bool ndarray \<Rightarrow> sample ndarray)
       \<Rightarrow> call list \<times> (error + sample ndarray)" where
  "assemble_chunk bi tile_map warp_func fuse_func =
     (case tile_map (chunk_location bi) of
        None \<Rightarrow> ([], Inl KeyError)
      | Some tiles \<Rightarrow>
          if 0 < length tiles
          then (case warp_func bi (last_two (chunk_shape bi)) tiles of
                  Inl e \<Rightarrow> ([WarpCall], Inl e)
                | Inr (warped_tiles, warped_masks) \<Rightarrow>
                    ([WarpCall, FuseCall],
                     Inr (newaxis3 (fuse_func warped_tiles warped_masks))))
          else ([], Inr (np_zeros (chunk_shape bi))))"

text \<open>The rows of a 5-D block at the leading index (0, 0, 0), as nested lists.\<close>

definition block_rows :: "'a ndarray \<Rightarrow> 'a list list" where
  "block_rows a =
     map (\<lambda>r. map (\<lambda>c. item a [0, 0, 0, r, c]) [0..<shape a ! 4]) [0..<shape a ! 3]"

subsection \<open>Observers\<close>

text \<open>Whether the block pixel at row \<open>r\<close> and column \<open>c\<close> of the block with origin
  \<open>chunk_yx_origin\<close> lies inside the tile's pixel array, and the tile sample there.\<close>

definition tile_row :: "int \<times> int \<Rightarrow> Tile \<Rightarrow> nat \<Rightarrow> int" where
  "tile_row chunk_yx_origin tile r = int r + (fst chunk_yx_origin - pos_y (position tile))"

definition tile_col :: "int \<times> int \<Rightarrow> Tile \<Rightarrow> nat \<Rightarrow> int" where
  "tile_col chunk_yx_origin tile c = int c + (snd chunk_yx_origin - pos_x (position tile))"

definition in_footprint :: "int \<times> int \<Rightarrow> Tile \<Rightarrow> nat \<Rightarrow> nat \<Rightarrow> bool" where
  "in_footprint chunk_yx_origin tile r c =
     (0 \<le> tile_row chunk_yx_origin tile r
      \<and> tile_row chunk_yx_origin tile r < int (shape (data tile) ! 0)
      \<and> 0 \<le> tile_col chunk_yx_origin tile c
      \<and> tile_col chunk_yx_origin tile c < int (shape (data tile) ! 1))"

text \<open>The y/x origin of a block, as \<open>translate_tiles_2d\<close> reads it.\<close>

definition block_origin :: "block_info \<Rightarrow> int \<times> int" where
  "block_origin bi = (fst (array_location bi ! 3), fst (array_location bi ! 4))"

text \<open>The shape of the array a call of \<open>assemble_chunk\<close> returns, if it returns one.\<close>

definition result_shape :: "call list \<times> (error + 'a ndarray) \<Rightarrow> nat list option" where
  "result_shape res = (case snd res of Inl e \<Rightarrow> None | Inr a \<Rightarrow> Some (shape a))"

text \<open>The rows of the block a call of \<open>assemble_chunk\<close> returns, if it returns one.\<close>

definition result_rows :: "call list \<times> (error + 'a ndarray) \<Rightarrow> 'a list list option" where
  "result_rows res = (case snd res of Inl e \<Rightarrow> None | Inr a \<Rightarrow> Some (block_rows a))"

subsection \<open>Example inputs\<close>

text \<open>A store whose objects are all 4x4 tiles of value 10 at (0, 0, 0, 0, px).\<close>

definition uniform_heap :: "int \<Rightarrow> heap" where
  "uniform_heap px r = const_tile 0 px 4 4 10"

text \<open>A stack of \<open>length vs\<close> one-pixel images, the \<open>i\<close>-th holding \<open>vs ! i\<close>; and an
  uninitialised buffer that holds \<open>v\<close> everywhere.\<close>

definition pixel_stack :: "'a list \<Rightarrow> 'a ndarray" where
  "pixel_stack vs = \<lparr>shape = [length vs, 1, 1], item = (\<lambda>idx. vs ! hd idx)\<rparr>"

definition const_junk :: "fl \<Rightarrow> nat list \<Rightarrow> fl" where
  "const_junk v idx = v"

text \<open>The block of the end-to-end example: origin (0, 0), shape (1, 1, 1, 4, 6), with a
  4x4 tile of value 10 at (y, x) = (0, 0) and a 4x4 tile of value 20 at (0, 2).\<close>

definition example_block :: block_info where
  "example_block =
     \<lparr>array_location = [(0, 1), (0, 1), (0, 1), (0, 4), (0, 6)],
      chunk_location = [0, 0, 0, 0, 0],
      chunk_shape = [1, 1, 1, 4, 6]\<rparr>"

definition example_tile_map :: "nat list \<rightharpoonup> Tile list" where
  "example_tile_map =
     [[0, 0, 0, 0, 0] \<mapsto> [const_tile 0 0 4 4 10, const_tile 0 2 4 4 20]]"

text \<open>A tile map with no tile for the example block, and a warp function that always
  fails.\<close>

definition empty_tile_map :: "nat list \<rightharpoonup> Tile list" where
  "empty_tile_map = [[0, 0, 0, 0, 0] \<mapsto> []]"

definition failing_warp ::
    "block_info \<Rightarrow> nat list \<Rightarrow> Tile list \<Rightarrow> error + (sample ndarray \<times> bool ndarray)" where
  "failing_warp bi yx_chunk_shape tiles = Inl ValueError"

section \<open>Properties\<close>

lemma length_get_position: "length (get_position t) = 5"
  by (simp add: get_position_def)


subsection \<open>Origin normalisation\<close>

lemma get_position_set_shifted:
  "length m = 5 \<Longrightarrow>
   get_position (set_shifted_position m h t t) = np_subtract (get_position (h t)) m"
  by (simp add: set_shifted_position_def get_position_def np_subtract_def Let_def
      list_eq_iff_nth_eq less_Suc_eq numeral_eq_Suc)

lemma set_shifted_other: "r \<noteq> t \<Longrightarrow> set_shifted_position m h t r = h r"
  by (simp add: set_shifted_position_def Let_def)

lemma set_shifted_same:
  "set_shifted_position m h t t =
     (h t)\<lparr>position :=
        \<lparr>pos_time = np_subtract (get_position (h t)) m ! 0,
         pos_channel = np_subtract (get_position (h t)) m ! 1,
         pos_z = np_subtract (get_position (h t)) m ! 2,
         pos_y = np_subtract (get_position (h t)) m ! 3,
         pos_x = np_subtract (get_position (h t)) m ! 4\<rparr>\<rparr>"
  by (simp add: set_shifted_position_def Let_def)

text \<open>The loop leaves an object outside the list alone, and writes an object that the
  list holds once exactly once.\<close>

lemma shift_loop_notin: "r \<notin> set ts \<Longrightarrow> shift_loop m h ts r = h r"
  by (induction ts arbitrary: h) (auto simp: set_shifted_other)

lemma shift_loop_in:
  "distinct ts \<Longrightarrow> r \<in> set ts \<Longrightarrow> shift_loop m h ts r = set_shifted_position m h r r"
proof (induction ts arbitrary: h)
  case Nil
  then show ?case by simp
next
  case (Cons t ts)
  show ?case
  proof (cases "r = t")
    case True
    then have "r \<notin> set ts" using Cons.prems by simp
    then show ?thesis using True by (simp add: shift_loop_notin)
  next
    case False
    then have "r \<in> set ts" using Cons.prems by simp
    moreover have "distinct ts" using Cons.prems by simp
    ultimately have "shift_loop m (set_shifted_position m h t) ts r =
        set_shifted_position m (set_shifted_position m h t) r r"
      by (rule Cons.IH[rotated])
    also have "\<dots> = set_shifted_position m h r r"
      using False by (simp add: set_shifted_position_def Let_def)
    finally show ?thesis by simp
  qed
qed

lemma min_list_shift:
  fixes f :: "'a \<Rightarrow> int"
  assumes "xs \<noteq> []"
  shows "min_list (map (\<lambda>a. f a - min_list (map f xs)) xs) = 0"
proof -
  let ?m = "min_list (map f xs)"
  have m: "?m = Min (f ` set xs)" using assms by (simp add: min_list_Min)
  have "min_list (map (\<lambda>a. f a - ?m) xs) = Min ((\<lambda>a. f a - ?m) ` set xs)"
    using assms by (simp add: min_list_Min)
  also have "\<dots> = 0"
  proof (rule Min_eqI)
    show "finite ((\<lambda>a. f a - ?m) ` set xs)" by simp
    fix y assume "y \<in> (\<lambda>a. f a - ?m) ` set xs"
    then obtain a where a: "a \<in> set xs" "y = f a - ?m" by auto
    have "?m \<le> f a" unfolding m using a by (intro Min_le) auto
    then show "0 \<le> y" using a by simp
  next
    have "?m \<in> f ` set xs" unfolding m using assms by (intro Min_in) auto
    then show "0 \<in> (\<lambda>a. f a - ?m) ` set xs" by force
  qed
  finally show ?thesis .
qed

lemma int64_id: "in_int64 v \<Longrightarrow> int64 v = v"
  by (simp add: int64_def in_int64_def mod_pos_pos_trivial)

lemma int64_small [simp]: "int64 0 = 0" "int64 (- 5) = - 5" "int64 (- 1) = - 1"
  by (simp_all add: int64_def)

lemma np_subtract_nth:
  "k < length a \<Longrightarrow> k < length b \<Longrightarrow> np_subtract a b ! k = int64 (a ! k - b ! k)"
  by (simp add: np_subtract_def)

lemma length_np_subtract: "length (np_subtract a b) = min (length a) (length b)"
  by (simp add: np_subtract_def)

lemma np_min_axis0_positions:
  "tiles \<noteq> [] \<Longrightarrow>
   np_min_axis0 (map (\<lambda>t. get_position (h t)) tiles) =
     Inr (map (\<lambda>k. min_list (map (\<lambda>t. get_position (h t) ! k) tiles)) [0..<5])"
  by (cases tiles) (simp_all add: np_min_axis0_def length_get_position comp_def)

text \<open>
  What the function does when every tile of the list is an object of its own and the
  coordinates are small enough for the differences to fit 64 bits: it returns the same
  objects in the same order, the minimum of every coordinate over them is 0 afterwards,
  the difference of the positions of any two tiles is what it was, and shapes and pixel
  data are what they were.
\<close>

lemma shift_to_origin_distinct_objects:
  assumes "tiles \<noteq> []" and "distinct tiles"
    and range: "\<forall>a\<in>set tiles. \<forall>k<5. - (2 ^ 62) \<le> get_position (h a) ! k
                  \<and> get_position (h a) ! k < 2 ^ 62"
  shows "\<exists>h'. shift_to_origin h tiles = Inr (h', tiles)
      \<and> np_min_axis0 (positions h' tiles) = Inr [0, 0, 0, 0, 0]
      \<and> (\<forall>a\<in>set tiles. \<forall>b\<in>set tiles.
            np_subtract (get_position (h' a)) (get_position (h' b)) =
            np_subtract (get_position (h a)) (get_position (h b)))
      \<and> (\<forall>a\<in>set tiles. tile_shape (h' a) = tile_shape (h a) \<and> data (h' a) = data (h a))"
proof -
  define m where "m = map (\<lambda>k. min_list (map (\<lambda>t. get_position (h t) ! k) tiles)) [0..<5]"
  define h' where "h' = shift_loop m h tiles"
  have len: "length m = 5" by (simp add: m_def)
  have res: "shift_to_origin h tiles = Inr (h', tiles)"
    using assms(1) by (simp add: shift_to_origin_def np_min_axis0_positions m_def h'_def)
  have at: "h' a = set_shifted_position m h a a" if "a \<in> set tiles" for a
    using that assms(2) by (simp add: h'_def shift_loop_in)
  have pos: "get_position (h' a) = np_subtract (get_position (h a)) m" if "a \<in> set tiles" for a
    using that len by (simp add: at get_position_set_shifted)
  have mk: "m ! k = min_list (map (\<lambda>t. get_position (h t) ! k) tiles)" if "k < 5" for k
    using that by (simp add: m_def)
  have m_range: "- (2 ^ 62) \<le> m ! k \<and> m ! k < 2 ^ 62" if "k < 5" for k
  proof -
    let ?col = "map (\<lambda>t. get_position (h t) ! k) tiles"
    have ne: "?col \<noteq> []" using assms(1) by simp
    have "min_list ?col = Min (set ?col)" using ne by (rule min_list_Min)
    moreover have "Min (set ?col) \<in> set ?col" using ne by (intro Min_in) simp_all
    ultimately have "m ! k \<in> set ?col" using that by (simp add: mk)
    then obtain a where "a \<in> set tiles" "m ! k = get_position (h a) ! k" by auto
    then show ?thesis using range that by simp
  qed
  have nth: "get_position (h' a) ! k = get_position (h a) ! k - m ! k"
    if "a \<in> set tiles" "k < 5" for a k
  proof -
    have "- (2 ^ 62) \<le> get_position (h a) ! k \<and> get_position (h a) ! k < 2 ^ 62"
      using range that by blast
    then have "in_int64 (get_position (h a) ! k - m ! k)"
      using m_range [OF that(2)] by (simp add: in_int64_def)
    then show ?thesis
      using that len by (simp add: pos np_subtract_nth length_get_position int64_id)
  qed
  have col: "min_list (map (\<lambda>t. get_position (h' t) ! k) tiles) = 0" if "k < 5" for k
  proof -
    have "map (\<lambda>t. get_position (h' t) ! k) tiles =
          map (\<lambda>t. get_position (h t) ! k - min_list (map (\<lambda>t. get_position (h t) ! k) tiles)) tiles"
      using that by (simp add: nth mk)
    then show ?thesis
      by (simp only: min_list_shift [OF assms(1)])
  qed
  have "np_min_axis0 (positions h' tiles) =
        Inr (map (\<lambda>k. min_list (map (\<lambda>t. get_position (h' t) ! k) tiles)) [0..<5])"
    using assms(1) by (simp add: positions_def np_min_axis0_positions)
  also have "map (\<lambda>k. min_list (map (\<lambda>t. get_position (h' t) ! k) tiles)) [0..<5] =
        map (\<lambda>k. 0) [0..<5]"
    by (rule map_cong) (simp_all add: col)
  also have "\<dots> = [0, 0, 0, 0, 0]"
    by (simp add: upt_conv_Cons)
  finally have minimum: "np_min_axis0 (positions h' tiles) = Inr [0, 0, 0, 0, 0]" .
  have diff: "np_subtract (get_position (h' a)) (get_position (h' b)) =
              np_subtract (get_position (h a)) (get_position (h b))"
    if "a \<in> set tiles" "b \<in> set tiles" for a b
    using that len
    by (simp add: list_eq_iff_nth_eq length_np_subtract length_get_position np_subtract_nth nth)
  have frame: "tile_shape (h' a) = tile_shape (h a) \<and> data (h' a) = data (h a)"
    if "a \<in> set tiles" for a
    using that by (simp add: at set_shifted_same)
  show ?thesis
    using res minimum diff frame by blast
qed

text \<open>
  Claim C2 says that the minimum of the returned positions is (0, 0, 0, 0, 0) for every
  non-empty list of tiles. The docstring says the same. It fails for a list that holds
  one tile object twice: the returned list holds the objects of the input list, the
  loop writes the new position into the object, so it visits the object twice and
  subtracts the minimum twice. For the list of object 0 twice, a tile at x = 5, the
  minimum of the returned positions is (0, 0, 0, 0, -5); for two objects that hold equal
  tiles at x = 5 it is (0, 0, 0, 0, 0).
\<close>

theorem shift_to_origin_repeated_tile:
  "[0, 0] \<noteq> ([] :: ref list)
   \<and> min_position_after (uniform_heap 5) [0, 0] = Inr [0, 0, 0, 0, -5]
   \<and> min_position_after (uniform_heap 5) [0, 1] = Inr [0, 0, 0, 0, 0]"
  by (simp add: min_position_after_def shift_to_origin_def np_min_axis0_def positions_def
      set_shifted_position_def get_position_def np_subtract_def const_tile_def Let_def
      uniform_heap_def upt_conv_Cons)

text \<open>
  Claim C3 says that the tiles of the input list keep their positions. They do not: the
  returned list holds the very objects of the input list, and the loop writes their
  \<open>position\<close> fields. For the one-element list of object 0, a tile at x = 1, the object
  is at x = 0 after the call.
\<close>

theorem shift_to_origin_mutates_input:
  "get_position (uniform_heap 1 0) = [0, 0, 0, 0, 1]
   \<and> (case shift_to_origin (uniform_heap 1) [0] of
        Inl e \<Rightarrow> []
      | Inr (h', shifted_tiles) \<Rightarrow> get_position (h' 0)) = [0, 0, 0, 0, 0]"
  by (simp add: shift_to_origin_def np_min_axis0_def
      set_shifted_position_def get_position_def np_subtract_def const_tile_def Let_def
      uniform_heap_def upt_conv_Cons)


subsection \<open>Fusion\<close>

lemma unat_ucast_64_16: "unat (ucast (a :: 64 word) :: 16 word) = unat a mod 2 ^ 16"
  by (simp add: unsigned_ucast_eq take_bit_eq_mod)

lemma ucast_down_plus:
  "(ucast (a + b :: 64 word) :: 16 word) = ucast a + ucast b"
proof -
  have dvd: "(2::nat) ^ 16 dvd 2 ^ 64" by (rule le_imp_power_dvd) simp
  have "unat (ucast (a + b) :: 16 word) = ((unat a + unat b) mod 2 ^ 64) mod 2 ^ 16"
    by (simp add: unat_ucast_64_16 unat_word_ariths)
  also have "\<dots> = (unat a + unat b) mod 2 ^ 16"
    by (rule mod_mod_cancel [OF dvd])
  also have "\<dots> = unat (ucast a + ucast b :: 16 word)"
    by (simp add: unat_ucast_64_16 unat_word_ariths mod_add_eq)
  finally show ?thesis by (simp add: word_unat_eq_iff)
qed

lemma ucast_up_down: "(ucast (ucast (v :: 16 word) :: 64 word) :: 16 word) = v"
  by (rule bit_word_eqI) (auto simp: bit_ucast_iff dest: bit_imp_le_length)

lemma ucast_sum_list:
  "(ucast (sum_list (map (\<lambda>i. (ucast (f i :: 16 word) :: 64 word)) xs)) :: 16 word) =
   sum_list (map f xs)"
  by (induction xs) (simp_all add: ucast_down_plus ucast_up_down)

lemma sum_list_const_word:
  "sum_list (map (\<lambda>i. v) xs) = (of_nat (length xs) * v :: 'a::len word)"
  by (induction xs) (simp_all add: algebra_simps)

text \<open>
  Claim C7. For a stack of \<open>N\<close> tiles, \<open>fuse_sum\<close> returns at every pixel the sum of the \<open>N\<close>
  tile samples there, in the arithmetic of the sample type (16-bit unsigned, so modulo
  \<open>2 ^ 16\<close>); the result is the same for any two mask arrays; and \<open>N\<close> tiles that all hold
  \<open>v\<close> at a pixel give \<open>N * v\<close> there, again modulo \<open>2 ^ 16\<close>.
\<close>

theorem fuse_sum_accumulates:
  assumes "shape warped_tiles = N # rest"
  shows "shape (fuse_sum warped_tiles warped_masks) = rest
     \<and> item (fuse_sum warped_tiles warped_masks) idx =
         sum_list (map (\<lambda>i. item warped_tiles (i # idx)) [0..<N])
     \<and> fuse_sum warped_tiles warped_masks = fuse_sum warped_tiles other_masks
     \<and> ((\<forall>i<N. item warped_tiles (i # idx) = v) \<longrightarrow>
          item (fuse_sum warped_tiles warped_masks) idx = of_nat N * v)"
proof -
  have sum: "item (fuse_sum warped_tiles warped_masks) idx =
         sum_list (map (\<lambda>i. item warped_tiles (i # idx)) [0..<N])"
    using assms by (simp add: fuse_sum_def map_array_def np_sum_axis0_def Let_def ucast_sum_list)
  have const: "item (fuse_sum warped_tiles warped_masks) idx = of_nat N * v"
    if "\<forall>i<N. item warped_tiles (i # idx) = v"
  proof -
    have "map (\<lambda>i. item warped_tiles (i # idx)) [0..<N] = map (\<lambda>i. v) [0..<N]"
      using that by simp
    then show ?thesis by (simp add: sum sum_list_const_word del: map_eq_conv)
  qed
  show ?thesis
    using assms sum const by (simp add: fuse_sum_def map_array_def np_sum_axis0_def Let_def)
qed


text \<open>Claim C7 at three one-pixel tiles: of value 7 each, and of value 30000 each, where
  the sum 90000 wraps to 24464.\<close>

theorem fuse_sum_accumulates_witness:
  "item (fuse_sum (pixel_stack [7, 7, 7]) (pixel_stack [True, False, True])) [0, 0] = 21
   \<and> item (fuse_sum (pixel_stack [30000, 30000, 30000]) (pixel_stack [True, True, True])) [0, 0]
       = 24464"
  using fuse_sum_accumulates [of "pixel_stack [7, 7, 7]" 3 "[1, 1]"
      "pixel_stack [True, False, True]" "[0, 0]" "pixel_stack [True, False, True]" 7]
    fuse_sum_accumulates [of "pixel_stack [30000, 30000, 30000]" 3 "[1, 1]"
      "pixel_stack [True, True, True]" "[0, 0]" "pixel_stack [True, True, True]" 30000]
  by (simp add: pixel_stack_def less_Suc_eq numeral_3_eq_3)


lemma sum_list_upt_single:
  fixes f :: "nat \<Rightarrow> 'a::comm_monoid_add"
  assumes "k < N" and "\<forall>i<N. i \<noteq> k \<longrightarrow> f i = 0"
  shows "sum_list (map f [0..<N]) = f k"
proof -
  have "sum_list (map f [0..<N]) = sum f {0..<N}"
    by (simp add: interv_sum_list_conv_sum_set_nat)
  also have "\<dots> = sum f {k}"
    using assms by (intro sum.mono_neutral_right) auto
  finally show ?thesis by simp
qed

lemma background_iff:
  "(r, c) \<in> set (background m) \<longleftrightarrow> r < shape m ! 0 \<and> c < shape m ! 1 \<and> \<not> item m [r, c]"
  by (auto simp: background_def split: if_splits)

lemma edt_background:
  assumes "r < shape m ! 0" and "c < shape m ! 1" and "\<not> item m [r, c]"
  shows "item (distance_transform_edt m) [r, c] = 0"
proof -
  have "(r, c) \<in> set (background m)" using assms by (simp add: background_iff)
  then have "background m \<noteq> []" by auto
  then show ?thesis using assms(3) by (simp add: distance_transform_edt_def)
qed

lemma edt_foreground:
  assumes "item m [r, c]"
  shows "0 < item (distance_transform_edt m) [r, c]"
proof (cases "background m = []")
  case True
  have "0 < (r + 1)\<^sup>2 + c\<^sup>2" by simp
  then have "0 < real ((r + 1)\<^sup>2 + c\<^sup>2)" by (simp only: of_nat_0_less_iff)
  then show ?thesis using True by (simp add: distance_transform_edt_def del: of_nat_add of_nat_power)
next
  case False
  let ?ds = "map (sq_dist (r, c)) (background m)"
  have ne: "?ds \<noteq> []" using False by simp
  have "min_list ?ds = Min (set ?ds)" using ne by (rule min_list_Min)
  moreover have "Min (set ?ds) \<in> set ?ds" using ne by (intro Min_in) simp_all
  ultimately have "min_list ?ds \<in> set ?ds" by simp
  then obtain p where p: "p \<in> set (background m)" "min_list ?ds = sq_dist (r, c) p"
    by auto
  have "\<not> item m [fst p, snd p]" using p(1) background_iff [of "fst p" "snd p" m] by simp
  then have "p \<noteq> (r, c)" using assms by auto
  then have "int r \<noteq> int (fst p) \<or> int c \<noteq> int (snd p)" by (cases p) auto
  then have "0 < sq_dist (r, c) p"
    by (auto simp: sq_dist_def add_pos_nonneg add_nonneg_pos)
  then show ?thesis
    using False assms p(2) by (simp add: distance_transform_edt_def)
qed


lemma astype_sample_to_float: "astype_sample (Fin (sample_to_float v)) = v"
proof -
  have "\<lfloor>real (unat v)\<rfloor> = int (unat v)" by (rule floor_of_nat)
  moreover have "(word_of_int (int (unat v)) :: sample) = v" by simp
  moreover have "0 \<le> real (unat v)" by (rule of_nat_0_le_iff)
  ultimately show ?thesis
    by (simp only: sample_to_float_def astype_sample.simps if_True)
qed

lemma astype_sample_zero: "astype_sample (Fin 0) = 0"
  by simp

lemma clip_unit_range: "0 \<le> clip 0 1 v \<and> clip 0 1 v \<le> 1"
  by (simp add: clip_def)

lemma item_weighted_sum:
  "item (weighted_sum warped_tiles weights) idx =
     astype_sample (Fin (sum_list (map (\<lambda>i. sample_to_float (item warped_tiles (i # idx))
                                            * item weights (i # idx))
                                  [0..<hd (shape warped_tiles)])))"
  by (simp add: weighted_sum_def map_array_def map_array2_def np_sum_axis0_def)

lemma shape_weighted_sum: "shape (weighted_sum warped_tiles weights) = tl (shape warped_tiles)"
  by (simp add: weighted_sum_def map_array_def map_array2_def np_sum_axis0_def)

lemma weighted_sum_single:
  assumes "hd (shape warped_tiles) = N" and "k < N"
    and "item weights (k # idx) = 1"
    and "\<forall>i<N. i \<noteq> k \<longrightarrow> item weights (i # idx) = 0"
  shows "item (weighted_sum warped_tiles weights) idx = item warped_tiles (k # idx)"
proof -
  have "sum_list (map (\<lambda>i. sample_to_float (item warped_tiles (i # idx)) * item weights (i # idx))
                  [0..<N]) =
        sample_to_float (item warped_tiles (k # idx)) * item weights (k # idx)"
    using assms(2,4) by (intro sum_list_upt_single) auto
  then show ?thesis
    using assms(1,3)
    by (simp add: item_weighted_sum astype_sample_to_float del: astype_sample.simps)
qed


lemma item_normalize_weights:
  "item (normalize_weights junk weights) (i # idx) =
     clip 0 1 (nan_to_num 0 1 0
       (if 0 < sum_list (map (\<lambda>j. item weights (j # idx)) [0..<hd (shape weights)])
        then fl_divide (item weights (i # idx))
               (sum_list (map (\<lambda>j. item weights (j # idx)) [0..<hd (shape weights)]))
        else junk (i # idx)))"
  by (simp add: normalize_weights_def Let_def map_array_def true_divide_where_def
      np_sum_axis0_def)

lemma item_mean_weights:
  "item (mean_weights junk warped_masks) (i # idx) =
     clip 0 1 (nan_to_num 0 1 0
       (if 0 < sum_list (map (\<lambda>j. of_bool (item warped_masks (j # idx)) :: int)
                          [0..<hd (shape warped_masks)])
        then fl_divide (bool_to_float (item warped_masks (i # idx)))
               (real_of_int (sum_list (map (\<lambda>j. of_bool (item warped_masks (j # idx)) :: int)
                          [0..<hd (shape warped_masks)])))
        else junk (i # idx)))"
  by (simp add: mean_weights_def Let_def map_array_def true_divide_where_def
      np_sum_axis0_def)

lemma item_edt_weights:
  "item (edt_weights warped_masks) (i # idx) =
     item (distance_transform_edt (subarray warped_masks i)) idx"
  by (simp add: edt_weights_def)

lemma mean_weights_single:
  assumes "hd (shape warped_masks) = N" and "k < N"
    and "item warped_masks (k # idx)"
    and "\<forall>i<N. i \<noteq> k \<longrightarrow> \<not> item warped_masks (i # idx)"
  shows "item (mean_weights junk warped_masks) (k # idx) = 1"
    and "\<forall>i<N. i \<noteq> k \<longrightarrow> item (mean_weights junk warped_masks) (i # idx) = 0"
proof -
  have "sum_list (map (\<lambda>j. of_bool (item warped_masks (j # idx)) :: int) [0..<N]) =
        of_bool (item warped_masks (k # idx))"
    using assms(2,4) by (intro sum_list_upt_single) auto
  then have cnt: "sum_list (map (\<lambda>j. of_bool (item warped_masks (j # idx)) :: int) [0..<N]) = 1"
    using assms(3) by simp
  show "item (mean_weights junk warped_masks) (k # idx) = 1"
    using assms(1,3) by (simp add: item_mean_weights cnt fl_divide_def bool_to_float_def clip_def)
  show "\<forall>i<N. i \<noteq> k \<longrightarrow> item (mean_weights junk warped_masks) (i # idx) = 0"
    using assms(1,4) by (simp add: item_mean_weights cnt fl_divide_def bool_to_float_def clip_def)
qed

lemma linear_weights_single:
  assumes "shape warped_masks = [N, H, W]" and "k < N" and "r < H" and "c < W"
    and "item warped_masks [k, r, c]"
    and "\<forall>i<N. i \<noteq> k \<longrightarrow> \<not> item warped_masks [i, r, c]"
  shows "item (linear_weights junk warped_masks) [k, r, c] = 1"
    and "\<forall>i<N. i \<noteq> k \<longrightarrow> item (linear_weights junk warped_masks) [i, r, c] = 0"
proof -
  let ?e = "\<lambda>j. item (edt_weights warped_masks) [j, r, c]"
  have pos: "0 < ?e k"
    using assms(5) by (simp add: item_edt_weights edt_foreground subarray_def)
  have zero: "?e i = 0" if "i < N" "i \<noteq> k" for i
    using that assms(1,3,4,6)
    by (simp add: item_edt_weights edt_background subarray_def)
  have "sum_list (map ?e [0..<N]) = ?e k"
    using assms(2) zero by (intro sum_list_upt_single) auto
  then have den: "sum_list (map ?e [0..<hd (shape (edt_weights warped_masks))]) = ?e k"
    using assms(1) by (simp add: edt_weights_def)
  show "item (linear_weights junk warped_masks) [k, r, c] = 1"
    using pos by (simp add: linear_weights_def item_normalize_weights den fl_divide_def clip_def)
  show "\<forall>i<N. i \<noteq> k \<longrightarrow> item (linear_weights junk warped_masks) [i, r, c] = 0"
    using pos zero
    by (simp add: linear_weights_def item_normalize_weights den fl_divide_def clip_def)
qed


lemma item_masked_sum:
  "item (masked_sum warped_tiles warped_masks) idx =
     sum_list (map (\<lambda>i. item warped_tiles (i # idx) * of_bool (item warped_masks (i # idx)))
                   [0..<hd (shape warped_tiles)])"
  by (simp add: masked_sum_def map_array_def map_array2_def np_sum_axis0_def ucast_sum_list)

text \<open>
  Claim C9. Let the tile and mask stacks have shape \<open>(N, H, W)\<close> and let exactly one mask,
  that of tile \<open>k\<close>, be True at the pixel \<open>(r, c)\<close>. Then mean fusion gives tile \<open>k\<close> the
  weight 1 and every other tile the weight 0 at that pixel, and the fused sample is the
  sample of tile \<open>k\<close>; and for \<open>N \<ge> 2\<close> the same holds of linear fusion, whose distance
  transform is positive for tile \<open>k\<close> and 0 for the others there.
\<close>

theorem single_cover_keeps_value:
  assumes "shape warped_tiles = [N, H, W]" and "shape warped_masks = [N, H, W]"
    and "r < H" and "c < W" and "k < N"
    and "item warped_masks [k, r, c]"
    and "\<forall>i<N. i \<noteq> k \<longrightarrow> \<not> item warped_masks [i, r, c]"
  shows "item (mean_weights junk warped_masks) [k, r, c] = 1
     \<and> (\<forall>i<N. i \<noteq> k \<longrightarrow> item (mean_weights junk warped_masks) [i, r, c] = 0)
     \<and> item (fuse_mean junk warped_tiles warped_masks) [r, c] = item warped_tiles [k, r, c]
     \<and> (2 \<le> N \<longrightarrow>
          item (linear_weights junk warped_masks) [k, r, c] = 1
        \<and> (\<forall>i<N. i \<noteq> k \<longrightarrow> item (linear_weights junk warped_masks) [i, r, c] = 0)
        \<and> item (fuse_linear junk warped_tiles warped_masks) [r, c] = item warped_tiles [k, r, c])"
proof -
  have hdt: "hd (shape warped_tiles) = N" and hdm: "hd (shape warped_masks) = N"
    using assms(1,2) by simp_all
  note mw = mean_weights_single [OF hdm assms(5,6,7), of junk]
  note lw = linear_weights_single [OF assms(2,5,3,4,6,7), of junk]
  have mean: "item (fuse_mean junk warped_tiles warped_masks) [r, c] = item warped_tiles [k, r, c]"
    unfolding fuse_mean_def by (rule weighted_sum_single [OF hdt assms(5) mw])
  have linear: "item (fuse_linear junk warped_tiles warped_masks) [r, c] = item warped_tiles [k, r, c]"
    if "2 \<le> N"
  proof -
    have "fuse_linear junk warped_tiles warped_masks =
          weighted_sum warped_tiles (linear_weights junk warped_masks)"
      using that hdt by (simp add: fuse_linear_def)
    then show ?thesis
      by (simp only: weighted_sum_single [OF hdt assms(5) lw])
  qed
  show ?thesis
    using mw lw mean linear by blast
qed

text \<open>Claim C9 at two one-pixel tiles 7 and 9, the first covering the pixel.\<close>

theorem single_cover_keeps_value_witness:
  "item (fuse_mean (const_junk NaN) (pixel_stack [7, 9]) (pixel_stack [True, False])) [0, 0] = 7
   \<and> item (fuse_linear (const_junk NaN) (pixel_stack [7, 9]) (pixel_stack [True, False])) [0, 0] = 7"
  using single_cover_keeps_value [of "pixel_stack [7, 9]" 2 1 1 "pixel_stack [True, False]" 0 0 0
      "const_junk NaN"]
  by (simp add: pixel_stack_def less_Suc_eq numeral_2_eq_2)


lemma upt_0_2: "[0..<2] = [0, Suc 0]"
  by (simp add: upt_conv_Cons)

lemma item_masked_sum_one:
  assumes "hd (shape warped_tiles) = 1"
  shows "item (masked_sum warped_tiles warped_masks) idx =
           item warped_tiles (0 # idx) * of_bool (item warped_masks (0 # idx))"
  using assms by (simp add: item_masked_sum)

text \<open>
  Claim C8. For a stack of exactly one tile of shape \<open>(1, H, W)\<close> whose mask is True
  everywhere, linear fusion returns an image of shape \<open>(H, W)\<close> that holds the tile's
  sample at every pixel; the result is the mask-weighted sum, which involves neither the
  distance transform nor the normalisation (nor the uninitialised buffer).
\<close>

theorem fuse_linear_single_tile:
  assumes "shape warped_tiles = [1, H, W]" and "shape warped_masks = [1, H, W]"
    and "\<forall>r<H. \<forall>c<W. item warped_masks [0, r, c]"
  shows "shape (fuse_linear junk warped_tiles warped_masks) = [H, W]
     \<and> (\<forall>r<H. \<forall>c<W. item (fuse_linear junk warped_tiles warped_masks) [r, c] =
                       item warped_tiles [0, r, c])
     \<and> fuse_linear junk warped_tiles warped_masks = masked_sum warped_tiles warped_masks"
proof -
  have eq: "fuse_linear junk warped_tiles warped_masks = masked_sum warped_tiles warped_masks"
    using assms(1) by (simp add: fuse_linear_def)
  have shp: "shape (masked_sum warped_tiles warped_masks) = [H, W]"
    using assms(1) by (simp add: masked_sum_def map_array_def map_array2_def np_sum_axis0_def)
  have px: "item (masked_sum warped_tiles warped_masks) [r, c] = item warped_tiles [0, r, c]"
    if "r < H" "c < W" for r c
    using that assms(1,3) by (simp add: item_masked_sum_one)
  show ?thesis using eq shp px by simp
qed

text \<open>Claim C8 at a one-pixel tile of value 7.\<close>

theorem fuse_linear_single_tile_witness:
  "item (fuse_linear (const_junk NaN) (pixel_stack [7]) (pixel_stack [True])) [0, 0] = 7"
proof -
  have st: "shape (pixel_stack [7 :: sample]) = [1, 1, 1]"
    and sm: "shape (pixel_stack [True]) = [1, 1, 1]"
    and m: "\<forall>r<1. \<forall>c<1. item (pixel_stack [True]) [0, r, c]"
    and v: "item (pixel_stack [7 :: sample]) [0, 0, 0] = 7"
    by (simp_all add: pixel_stack_def)
  have "item (fuse_linear (const_junk NaN) (pixel_stack [7]) (pixel_stack [True])) [0, 0] =
        item (pixel_stack [7 :: sample]) [0, 0, 0]"
    using fuse_linear_single_tile [OF st sm m, of "const_junk NaN", THEN conjunct2, THEN conjunct1]
    by simp
  then show ?thesis by (simp only: v)
qed


subsection \<open>The warp engine\<close>

lemma item_warp_tile:
  assumes "length (shape (data tile)) = 2"
  shows "item (warp_tile origin shp tile) [r, c, ch] =
     (if in_footprint origin tile r c
      then Fin (sample_to_float
             (if ch = 0
              then item (data tile) [nat (tile_row origin tile r), nat (tile_col origin tile c)]
              else 1))
      else Fin 0)"
proof -
  obtain h w where hw: "shape (data tile) = [h, w]"
    using assms by (cases "shape (data tile)" rule: list.exhaust)
      (auto simp: length_Suc_conv)
  show ?thesis
    by (simp add: warp_tile_def warp_def Let_def map_array_def np_stack_last_def np_ones_like_def
      load_data_def get_yx_position_def in_footprint_def tile_row_def tile_col_def hw)
qed

lemma shape_channel_warp_tile: "shape (channel k (warp_tile origin shp tile)) = shp"
  by (simp add: warp_tile_def warp_def Let_def channel_def)

lemma translate_tiles_2d_Inr:
  assumes "5 \<le> length (array_location bi)"
  shows "translate_tiles_2d bi shp tiles =
     Inr (np_array (map (\<lambda>w. map_array warped_tile_entry (channel 0 w))
                        (map (warp_tile (block_origin bi) shp) tiles)),
          np_array (map (\<lambda>w. map_array warped_mask_entry (channel 1 w))
                        (map (warp_tile (block_origin bi) shp) tiles)))"
  using assms by (simp add: translate_tiles_2d_def Let_def block_origin_def nan_to_num_bool_def)

lemma translate_tiles_2d_shape:
  assumes "translate_tiles_2d bi shp tiles = Inr (wt, wm)" and "tiles \<noteq> []"
  shows "shape wt = length tiles # shp" and "shape wm = length tiles # shp"
proof -
  have len: "5 \<le> length (array_location bi)"
    using assms(1) by (auto simp: translate_tiles_2d_def split: if_splits)
  obtain t ts where ts: "tiles = t # ts" using assms(2) by (cases tiles) auto
  show "shape wt = length tiles # shp" "shape wm = length tiles # shp"
    using assms(1) unfolding translate_tiles_2d_Inr [OF len]
    by (auto simp: np_array_def ts map_array_def shape_channel_warp_tile)
qed

lemma translate_tiles_2d_item:
  assumes "translate_tiles_2d bi shp tiles = Inr (wt, wm)" and "i < length tiles"
    and "length (shape (data (tiles ! i))) = 2"
  shows "item wt [i, r, c] =
           (if in_footprint (block_origin bi) (tiles ! i) r c
            then item (data (tiles ! i))
                   [nat (tile_row (block_origin bi) (tiles ! i) r),
                    nat (tile_col (block_origin bi) (tiles ! i) c)]
            else 0)"
    and "item wm [i, r, c] = in_footprint (block_origin bi) (tiles ! i) r c"
proof -
  have len: "5 \<le> length (array_location bi)"
    using assms(1) by (auto simp: translate_tiles_2d_def split: if_splits)
  have wt: "item wt [i, r, c] =
      warped_tile_entry (item (warp_tile (block_origin bi) shp (tiles ! i)) [r, c, 0])"
    and wm: "item wm [i, r, c] =
      warped_mask_entry (item (warp_tile (block_origin bi) shp (tiles ! i)) [r, c, 1])"
    using assms unfolding translate_tiles_2d_Inr [OF len]
    by (auto simp: np_array_def map_array_def channel_def)
  show "item wt [i, r, c] =
           (if in_footprint (block_origin bi) (tiles ! i) r c
            then item (data (tiles ! i))
                   [nat (tile_row (block_origin bi) (tiles ! i) r),
                    nat (tile_col (block_origin bi) (tiles ! i) c)]
            else 0)"
    unfolding wt item_warp_tile [OF assms(3)] warped_tile_entry_def
    by (simp add: astype_sample_to_float del: astype_sample.simps) simp
  show "item wm [i, r, c] = in_footprint (block_origin bi) (tiles ! i) r c"
    unfolding wm item_warp_tile [OF assms(3)] warped_mask_entry_def
    by (simp add: astype_bool_def sample_to_float_def)
qed








subsection \<open>Fusion of warped stacks\<close>



subsection \<open>Block assembly\<close>

text \<open>
  Claim C5. When the tile map holds the empty list for the block's location,
  \<open>assemble_chunk\<close> returns the array of the requested shape whose elements are all 0 (of
  the sample type), and the log of calls is empty: whatever the warp function and the
  fuse function are, neither is called.
\<close>

theorem assemble_chunk_no_tiles:
  assumes "tile_map (chunk_location bi) = Some []"
  shows "assemble_chunk bi tile_map warp_func fuse_func = ([], Inr (np_zeros (chunk_shape bi)))
     \<and> shape (np_zeros (chunk_shape bi)) = chunk_shape bi
     \<and> item (np_zeros (chunk_shape bi)) idx = 0"
  using assms by (simp add: assemble_chunk_def np_zeros_def)

text \<open>Claim C5 at the example block with an empty tile list and a warp function that
  would fail if it were called.\<close>

theorem assemble_chunk_no_tiles_witness:
  "assemble_chunk example_block empty_tile_map failing_warp (fuse_mean (const_junk NaN)) =
     ([], Inr (np_zeros [1, 1, 1, 4, 6]))"
  using assemble_chunk_no_tiles [of empty_tile_map example_block failing_warp
      "fuse_mean (const_junk NaN)"]
  by (simp add: empty_tile_map_def example_block_def)

lemma shape_fuse:
  "shape (fuse_mean junk wt wm) = tl (shape wt)"
  "shape (fuse_linear junk wt wm) = tl (shape wt)"
  "shape (fuse_sum wt wm) = tl (shape wt)"
  by (simp_all add: fuse_mean_def fuse_linear_def fuse_sum_def shape_weighted_sum masked_sum_def
      map_array_def map_array2_def np_sum_axis0_def Let_def)

lemma assemble_chunk_tiles:
  assumes "tile_map (chunk_location bi) = Some tiles" and "tiles \<noteq> []"
    and "translate_tiles_2d bi (last_two (chunk_shape bi)) tiles = Inr (wt, wm)"
  shows "assemble_chunk bi tile_map translate_tiles_2d fuse_func =
           ([WarpCall, FuseCall], Inr (newaxis3 (fuse_func wt wm)))"
  using assms by (simp add: assemble_chunk_def)

text \<open>
  Claim C10. Let the tile map hold a non-empty tile list for the block, and let the
  requested chunk shape be \<open>(a, b, c, H, W)\<close>. Then \<open>assemble_chunk\<close> calls the warp engine
  with \<open>(H, W)\<close> and returns the fused image with three axes of length 1 in front; the
  result does not depend on \<open>a\<close>, \<open>b\<close>, \<open>c\<close>; with each of the three fusion policies its
  shape is \<open>(1, 1, 1, H, W)\<close>; and that is the requested shape exactly when
  \<open>a = b = c = 1\<close>.
\<close>

theorem assemble_chunk_prepends_three_axes:
  assumes "tile_map (chunk_location bi) = Some tiles" and "tiles \<noteq> []"
    and "chunk_shape bi = [a, b, c, H, W]"
    and "5 \<le> length (array_location bi)"
  shows "(\<exists>wt wm. translate_tiles_2d bi [H, W] tiles = Inr (wt, wm)
            \<and> assemble_chunk bi tile_map translate_tiles_2d fuse_func =
                ([WarpCall, FuseCall], Inr (newaxis3 (fuse_func wt wm)))
            \<and> shape (newaxis3 (fuse_func wt wm)) = 1 # 1 # 1 # shape (fuse_func wt wm))
     \<and> assemble_chunk (bi\<lparr>chunk_shape := [a', b', c', H, W]\<rparr>) tile_map translate_tiles_2d fuse_func
         = assemble_chunk bi tile_map translate_tiles_2d fuse_func
     \<and> result_shape (assemble_chunk bi tile_map translate_tiles_2d (fuse_linear junk))
         = Some [1, 1, 1, H, W]
     \<and> result_shape (assemble_chunk bi tile_map translate_tiles_2d (fuse_mean junk))
         = Some [1, 1, 1, H, W]
     \<and> result_shape (assemble_chunk bi tile_map translate_tiles_2d fuse_sum)
         = Some [1, 1, 1, H, W]
     \<and> (result_shape (assemble_chunk bi tile_map translate_tiles_2d (fuse_linear junk))
           = Some (chunk_shape bi) \<longleftrightarrow> a = 1 \<and> b = 1 \<and> c = 1)
     \<and> (result_shape (assemble_chunk bi tile_map translate_tiles_2d (fuse_mean junk))
           = Some (chunk_shape bi) \<longleftrightarrow> a = 1 \<and> b = 1 \<and> c = 1)
     \<and> (result_shape (assemble_chunk bi tile_map translate_tiles_2d fuse_sum)
           = Some (chunk_shape bi) \<longleftrightarrow> a = 1 \<and> b = 1 \<and> c = 1)"
proof -
  have l2: "last_two (chunk_shape bi) = [H, W]"
    using assms(3) by (simp add: last_two_def)
  obtain wt wm where res: "translate_tiles_2d bi [H, W] tiles = Inr (wt, wm)"
    using translate_tiles_2d_Inr [OF assms(4)] by blast
  have shp: "shape wt = [length tiles, H, W]"
    using translate_tiles_2d_shape(1) [OF res assms(2)] by simp
  have call: "assemble_chunk bi tile_map translate_tiles_2d fuse_func =
      ([WarpCall, FuseCall], Inr (newaxis3 (fuse_func wt wm)))" for fuse_func
    using assms(1,2) res by (simp add: assemble_chunk_tiles l2)
  have axes: "shape (newaxis3 (fuse_func wt wm)) = 1 # 1 # 1 # shape (fuse_func wt wm)"
    by (simp add: newaxis3_def)
  have indep: "assemble_chunk (bi\<lparr>chunk_shape := [a', b', c', H, W]\<rparr>) tile_map
        translate_tiles_2d fuse_func = assemble_chunk bi tile_map translate_tiles_2d fuse_func"
    using assms(1,2) l2
    by (simp add: assemble_chunk_def last_two_def translate_tiles_2d_def)
  have shapes:
    "result_shape (assemble_chunk bi tile_map translate_tiles_2d (fuse_linear junk))
       = Some [1, 1, 1, H, W]"
    "result_shape (assemble_chunk bi tile_map translate_tiles_2d (fuse_mean junk))
       = Some [1, 1, 1, H, W]"
    "result_shape (assemble_chunk bi tile_map translate_tiles_2d fuse_sum)
       = Some [1, 1, 1, H, W]"
    by (simp_all add: call result_shape_def newaxis3_def shape_fuse shp)
  have full: "Some [1, 1, 1, H, W] = Some (chunk_shape bi) \<longleftrightarrow> a = 1 \<and> b = 1 \<and> c = 1"
    using assms(3) by auto
  have first: "\<exists>wt wm. translate_tiles_2d bi [H, W] tiles = Inr (wt, wm)
            \<and> assemble_chunk bi tile_map translate_tiles_2d fuse_func =
                ([WarpCall, FuseCall], Inr (newaxis3 (fuse_func wt wm)))
            \<and> shape (newaxis3 (fuse_func wt wm)) = 1 # 1 # 1 # shape (fuse_func wt wm)"
    using res call [of fuse_func] axes by blast
  show ?thesis
    using first indep by (simp only: shapes full simp_thms)
qed

text \<open>Claim C10 at the example block, and at the same block with the requested shape
  (2, 3, 5, 4, 6).\<close>

theorem assemble_chunk_prepends_three_axes_witness:
  "result_shape (assemble_chunk example_block example_tile_map translate_tiles_2d
                   (fuse_linear (const_junk NaN))) = Some [1, 1, 1, 4, 6]
   \<and> result_shape (assemble_chunk (example_block\<lparr>chunk_shape := [2, 3, 5, 4, 6]\<rparr>) example_tile_map
                   translate_tiles_2d (fuse_linear (const_junk NaN))) = Some [1, 1, 1, 4, 6]"
proof -
  have b: "example_tile_map (chunk_location example_block) =
             Some [const_tile 0 0 4 4 10, const_tile 0 2 4 4 20]"
    "[const_tile 0 0 4 4 10, const_tile 0 2 4 4 20] \<noteq> []"
    "chunk_shape example_block = [1, 1, 1, 4, 6]"
    "5 \<le> length (array_location example_block)"
    by (simp_all add: example_block_def example_tile_map_def)
  note t = assemble_chunk_prepends_three_axes [of example_tile_map example_block _ 1 1 1 4 6
      "fuse_linear (const_junk NaN)" 2 3 5 "const_junk NaN", OF b]
  show ?thesis using t by simp
qed


lemma upt_0_4: "[0..<4] = [0, 1, 2, 3]"
  by (simp add: upt_conv_Cons)

lemma upt_0_6: "[0..<6] = [0, 1, 2, 3, 4, 5]"
  by (simp add: upt_conv_Cons)

lemma astype_sample_numeral [simp]:
  "astype_sample (Fin 10) = 10" "astype_sample (Fin 15) = 15" "astype_sample (Fin 20) = 20"
  by simp_all

text \<open>
  Claim C1. Tile A, 4x4 of value 10 at (y, x) = (0, 0), and tile B, 4x4 of value 20 at
  (0, 2), assembled into the 4x6 block at origin (0, 0) by the warp engine and mean
  fusion: the block has shape (1, 1, 1, 4, 6), and every row is 10 in columns 0-1, 15 in
  columns 2-3 and 20 in columns 4-5. This holds for every content of the uninitialised
  quotient buffer.
\<close>

theorem end_to_end_example:
  "result_shape (assemble_chunk example_block example_tile_map translate_tiles_2d
                   (fuse_mean junk)) = Some [1, 1, 1, 4, 6]
   \<and> result_rows (assemble_chunk example_block example_tile_map translate_tiles_2d
                   (fuse_mean junk)) =
       Some [[10, 10, 15, 15, 20, 20],
             [10, 10, 15, 15, 20, 20],
             [10, 10, 15, 15, 20, 20],
             [10, 10, 15, 15, 20, 20]]"
proof -
  let ?A = "const_tile 0 0 4 4 10" and ?B = "const_tile 0 2 4 4 20"
  let ?tiles = "[?A, ?B]"
  have len: "5 \<le> length (array_location example_block)" by (simp add: example_block_def)
  obtain wt wm where res: "translate_tiles_2d example_block [4, 6] ?tiles = Inr (wt, wm)"
    using translate_tiles_2d_Inr [OF len] by blast
  have l2: "last_two (chunk_shape example_block) = [4, 6]"
    by (simp add: example_block_def last_two_def)
  have call: "assemble_chunk example_block example_tile_map translate_tiles_2d (fuse_mean junk) =
      ([WarpCall, FuseCall], Inr (newaxis3 (fuse_mean junk wt wm)))"
  proof (rule assemble_chunk_tiles [where tiles = ?tiles])
    show "example_tile_map (chunk_location example_block) = Some ?tiles"
      by (simp add: example_tile_map_def example_block_def)
    show "?tiles \<noteq> []" by simp
    show "translate_tiles_2d example_block (last_two (chunk_shape example_block)) ?tiles =
        Inr (wt, wm)"
      by (simp only: l2 res)
  qed
  have shp: "shape wt = [2, 4, 6]" "shape wm = [2, 4, 6]"
    using translate_tiles_2d_shape [OF res] by simp_all
  have origin: "block_origin example_block = (0, 0)"
    by (simp add: block_origin_def example_block_def)
  have fpA: "in_footprint (0, 0) ?A r c \<longleftrightarrow> r < 4 \<and> c < 4" for r c
    by (auto simp: in_footprint_def tile_row_def tile_col_def const_tile_def)
  have fpB: "in_footprint (0, 0) ?B r c \<longleftrightarrow> r < 4 \<and> 2 \<le> c \<and> c < 6" for r c
    by (auto simp: in_footprint_def tile_row_def tile_col_def const_tile_def)
  have tA: "item wt [0, r, c] = (if r < 4 \<and> c < 4 then 10 else 0)"
    and mA: "item wm [0, r, c] = (r < 4 \<and> c < 4)" for r c
    using translate_tiles_2d_item(1,2) [OF res, of 0 r c]
    by (simp_all add: origin fpA) (simp_all add: const_tile_def)
  have tB: "item wt [Suc 0, r, c] = (if r < 4 \<and> 2 \<le> c \<and> c < 6 then 20 else 0)"
    and mB: "item wm [Suc 0, r, c] = (r < 4 \<and> 2 \<le> c \<and> c < 6)" for r c
    using translate_tiles_2d_item(1,2) [OF res, of 1 r c]
    by (simp_all add: origin fpB) (simp_all add: const_tile_def)
  have px: "item (fuse_mean junk wt wm) [r, c] =
      astype_sample (Fin (sample_to_float (item wt [0, r, c]) * item (mean_weights junk wm) [0, r, c]
        + sample_to_float (item wt [Suc 0, r, c]) * item (mean_weights junk wm) [Suc 0, r, c]))"
    for r c
    by (simp add: fuse_mean_def item_weighted_sum shp upt_0_2 del: astype_sample.simps)
  have s2f: "sample_to_float 10 = 10" "sample_to_float 20 = 20" "sample_to_float 0 = 0"
    by (simp_all add: sample_to_float_def)
  have row: "map (\<lambda>c. item (fuse_mean junk wt wm) [r, c]) [0, 1, 2, 3, 4, 5] =
      [10, 10, 15, 15, 20, 20]" if "r < 4" for r
    using that
    by (simp add: px item_mean_weights shp upt_0_2 tA tB mA mB s2f fl_divide_def
        bool_to_float_def clip_def del: astype_sample.simps)
  have rows: "block_rows (newaxis3 (fuse_mean junk wt wm)) =
      map (\<lambda>r. map (\<lambda>c. item (fuse_mean junk wt wm) [r, c]) [0, 1, 2, 3, 4, 5]) [0, 1, 2, 3]"
    by (simp add: block_rows_def newaxis3_def shape_fuse shp upt_0_4 upt_0_6)
  have "block_rows (newaxis3 (fuse_mean junk wt wm)) =
      [[10, 10, 15, 15, 20, 20], [10, 10, 15, 15, 20, 20],
       [10, 10, 15, 15, 20, 20], [10, 10, 15, 15, 20, 20]]"
    unfolding rows using row [of 0] row [of 1] row [of 2] row [of 3] by simp
  then show ?thesis
    by (simp add: call result_shape_def result_rows_def newaxis3_def shape_fuse shp)
qed

end
